theory Spec2Isabelle
  imports Main
begin

section \<open>The tool executor of packages/core/src/scheduler/tool-executor.ts\<close>

text \<open>
  A shallow embedding of \<^verbatim>\<open>ToolExecutor\<close>: \<^verbatim>\<open>getToolErrorMessage\<close>,
  \<^verbatim>\<open>execute\<close>, \<^verbatim>\<open>createCancelledResult\<close>, \<^verbatim>\<open>createSuccessResult\<close>,
  \<^verbatim>\<open>createErrorResult\<close> and \<^verbatim>\<open>createErrorResponse\<close>.

  A thrown value is a value of type \<open>thrown\<close>; a function that can throw returns
  \<open>thrown + 'a\<close> with \<open>Inl\<close> the thrown value. A call made to a collaborator whose
  effect is visible outside the executor is recorded, in program order, in a list of
  \<open>Effect\<close>s returned beside the result. An optional value that is \<^verbatim>\<open>undefined\<close>
  is \<open>None\<close>.

  The functions imported from other files are parameters of the model (the record
  \<open>Collaborators\<close>); the four that \<^verbatim>\<open>createSuccessResult\<close> calls may throw.
  Two things are taken as given: the getters of \<^verbatim>\<open>Config\<close> return a value,
  the same at every call; \<^verbatim>\<open>runInDevTraceSpan\<close> returns or throws what its body
  does, and the writes to its metadata are effects.
\<close>

subsection \<open>Data\<close>

text \<open>
  \<^verbatim>\<open>ToolErrorType\<close> is declared outside this file; the executor names one member,
  \<^verbatim>\<open>UNHANDLED_EXCEPTION\<close>. Every other member is carried by its string value.
\<close>

datatype ToolErrorType = UNHANDLED_EXCEPTION | OtherToolErrorType string

text \<open>
  What a \<^verbatim>\<open>catch (e: unknown)\<close> can receive, as far as the executor tells values
  apart: an instance of \<^verbatim>\<open>ToolExecutionError\<close> (message, returnDisplay, errorType),
  any other instance of \<^verbatim>\<open>Error\<close> (its message), or a value that is no
  \<^verbatim>\<open>Error\<close>. For such a value \<^verbatim>\<open>String(e)\<close> either yields a string
  (\<open>NonErrorValue\<close>) or throws (\<open>StringThrows\<close>, with what it throws): an object
  without \<^verbatim>\<open>toString\<close> and \<^verbatim>\<open>valueOf\<close>, such as
  \<^verbatim>\<open>Object.create(null)\<close>, makes it throw a \<^verbatim>\<open>TypeError\<close>.
\<close>

datatype thrown =
    ToolExecutionError string "string option" "ToolErrorType option"
  | OtherError string
  | NonErrorValue string
  | StringThrows thrown

record ToolErrorMessage =
  message :: string
  display :: string
  errorType :: "ToolErrorType option"

record ToolCallRequestInfo =
  callId :: string
  name :: string
  prompt_id :: string

text \<open>
  A part of a transcript response. The two terminal payloads built here hold one
  \<^verbatim>\<open>functionResponse\<close> part whose \<^verbatim>\<open>response\<close> object has the single key
  \<^verbatim>\<open>error\<close>; the parts of a success come from \<^verbatim>\<open>convertToFunctionResponse\<close>
  and are opaque to the executor.
\<close>

datatype Part =
    FunctionResponse (fr_id: string) (fr_name: string) (fr_response: "(string \<times> string) list")
  | OpaquePart string

datatype PartListUnion = StringContent string | PartsContent "Part list"

record ToolResultError =
  tre_message :: string
  tre_type :: "ToolErrorType option"

record ToolResult =
  llmContent :: PartListUnion
  returnDisplay :: "string option"
  tr_error :: "ToolResultError option"

record AnyDeclarativeTool =
  tool_name :: string
  canUpdateOutput :: bool

text \<open>
  The executor asks one thing of an invocation: whether it is an instance of
  \<^verbatim>\<open>ShellToolInvocation\<close>.
\<close>

datatype AnyToolInvocation = ShellToolInvocation string | OtherToolInvocation string

fun isShellToolInvocation :: "AnyToolInvocation \<Rightarrow> bool" where
  "isShellToolInvocation (ShellToolInvocation _) = True"
| "isShellToolInvocation (OtherToolInvocation _) = False"

datatype Status = Pending | Executing | Success | Error | Cancelled

text \<open>
  \<^verbatim>\<open>ToolCall\<close> is a union of variants told apart by \<^verbatim>\<open>status\<close>; the variants
  differ in which of the properties below they carry. The executor tests
  \<^verbatim>\<open>tool\<close> and \<^verbatim>\<open>invocation\<close> both by key (\<^verbatim>\<open>'tool' in call\<close>) and by
  value (\<^verbatim>\<open>!call.tool\<close>), so these two properties keep the difference: the key is
  \<open>Missing\<close>, or present with the value \<^verbatim>\<open>undefined\<close>, or present with an
  object. Reading the property gives \<open>valueOf\<close>. Times are milliseconds since the
  epoch.
\<close>

datatype 'a property = Missing | Undefined | Defined 'a

fun valueOf :: "'a property \<Rightarrow> 'a option" where
  "valueOf (Defined v) = Some v"
| "valueOf Undefined = None"
| "valueOf Missing = None"

record ToolCall =
  status :: Status
  request :: ToolCallRequestInfo
  tool :: "AnyDeclarativeTool property"
  invocation :: "AnyToolInvocation property"
  startTime :: "int option"
  outcome :: "string option"
  pid :: "nat option"

record ToolCallResponseInfo =
  r_callId :: string
  responseParts :: "Part list"
  resultDisplay :: "string option"
  r_error :: "thrown option"
  r_errorType :: "ToolErrorType option"
  outputFile :: "string option"
  contentLength :: "nat option"

record CompletedToolCall =
  c_status :: Status
  c_request :: ToolCallRequestInfo
  c_response :: ToolCallResponseInfo
  c_tool :: "AnyDeclarativeTool option"
  c_invocation :: "AnyToolInvocation option"
  durationMs :: "int option"
  c_outcome :: "string option"

record ToolOutputTruncatedEvent =
  ev_prompt_id :: string
  ev_toolName :: string
  originalContentLength :: nat
  truncatedContentLength :: nat
  ev_threshold :: int
  ev_lines :: int

text \<open>The values the getters of \<^verbatim>\<open>Config\<close> return.\<close>

record Config =
  getEnableToolOutputTruncation :: bool
  getTruncateToolOutputThreshold :: int
  getTruncateToolOutputLines :: int
  getProjectTempDir :: string
  getActiveModel :: string

text \<open>
  \<^verbatim>\<open>AbortSignal.aborted\<close> is read at two places of \<^verbatim>\<open>execute\<close>: after the
  \<^verbatim>\<open>await\<close> of the invocation's promise, and at the head of the \<^verbatim>\<open>catch\<close>
  block. The signal is owned by the caller and may be aborted at any moment, so each
  read has its own value.
\<close>

record AbortSignal =
  aborted_after_await :: bool
  aborted_in_catch :: bool

record ToolExecutionContext =
  call :: ToolCall
  signal :: AbortSignal
  outputUpdateHandler :: bool

text \<open>
  What the hook-wrapped invocation does with the two callbacks it is handed, in order,
  and how its promise settles: \<open>Inr\<close> a tool result, \<open>Inl\<close> a rejection. A
  callback that was not supplied (\<^verbatim>\<open>undefined\<close>) cannot be called: its action has
  no effect. Nothing is assumed of a run: how often it reports a process identity and
  how it settles are up to the invocation layer.
\<close>

datatype HookAction = SetPid nat | LiveOutput string

record HookRun =
  actions :: "HookAction list"
  settlement :: "thrown + ToolResult"

text \<open>
  The collaborators imported from other files, as parameters: the constant
  \<^verbatim>\<open>SHELL_TOOL_NAME\<close>, \<^verbatim>\<open>executeToolWithHooks\<close>,
  \<^verbatim>\<open>saveTruncatedToolOutput\<close> (the saved path, or a rejection),
  \<^verbatim>\<open>formatTruncatedToolOutput\<close>, \<^verbatim>\<open>logToolOutputTruncated\<close> (\<open>Some\<close> when
  it throws), \<^verbatim>\<open>convertToFunctionResponse\<close>, and the value of
  \<^verbatim>\<open>Date.now()\<close> when the terminal call is built.
\<close>

record Collaborators =
  SHELL_TOOL_NAME :: string
  executeToolWithHooks :: "AnyToolInvocation option \<Rightarrow> string \<Rightarrow> AnyDeclarativeTool \<Rightarrow> HookRun"
  saveTruncatedToolOutput :: "string \<Rightarrow> string \<Rightarrow> string \<Rightarrow> string \<Rightarrow> thrown + string"
  formatTruncatedToolOutput :: "string \<Rightarrow> string \<Rightarrow> int \<Rightarrow> thrown + string"
  logToolOutputTruncated :: "ToolOutputTruncatedEvent \<Rightarrow> thrown option"
  convertToFunctionResponse :: "string \<Rightarrow> string \<Rightarrow> PartListUnion \<Rightarrow> string \<Rightarrow> thrown + Part list"
  Date_now :: int

datatype Effect =
    OnUpdateToolCall ToolCall
  | OutputUpdate string string
  | SaveTruncatedToolOutput string string string string
  | LogToolOutputTruncated ToolOutputTruncatedEvent
  | SpanInput ToolCallRequestInfo
  | SpanOutput ToolResult
  | SpanError thrown

subsection \<open>The error classifier\<close>

text \<open>
  \<^verbatim>\<open>getToolErrorMessage\<close> throws what \<^verbatim>\<open>String(error)\<close> throws.
\<close>

fun getToolErrorMessage :: "thrown \<Rightarrow> thrown + ToolErrorMessage" where
  "getToolErrorMessage (ToolExecutionError m rd et) =
     Inr \<lparr>message = m, display = (case rd of Some d \<Rightarrow> d | None \<Rightarrow> m), errorType = et\<rparr>"
| "getToolErrorMessage (OtherError m) = Inr \<lparr>message = m, display = m, errorType = None\<rparr>"
| "getToolErrorMessage (NonErrorValue s) = Inr \<lparr>message = s, display = s, errorType = None\<rparr>"
| "getToolErrorMessage (StringThrows x) = Inl x"

subsection \<open>The three terminal calls\<close>

text \<open>
  \<^verbatim>\<open>startTime ? Date.now() - startTime : undefined\<close>: the test is on the
  truthiness of a number, so a start time of 0 takes the \<^verbatim>\<open>undefined\<close> branch.
\<close>

definition duration :: "int \<Rightarrow> int option \<Rightarrow> int option" where
  "duration now st =
     (case st of
        None \<Rightarrow> None
      | Some t \<Rightarrow> if t = 0 then None else Some (now - t))"

definition createCancelledResult ::
  "Collaborators \<Rightarrow> ToolCall \<Rightarrow> string \<Rightarrow> thrown + CompletedToolCall" where
  "createCancelledResult ext c reason =
     (let errorMessage = ''[Operation Cancelled] '' @ reason in
      if tool c = Missing \<or> invocation c = Missing
      then Inl (OtherError ''Cancelled tool call missing tool/invocation references'')
      else Inr \<lparr>c_status = Cancelled,
                c_request = request c,
                c_response =
                  \<lparr>r_callId = callId (request c),
                   responseParts =
                     [FunctionResponse (callId (request c)) (name (request c))
                        [(''error'', errorMessage)]],
                   resultDisplay = None,
                   r_error = None,
                   r_errorType = None,
                   outputFile = None,
                   contentLength = Some (length errorMessage)\<rparr>,
                c_tool = valueOf (tool c),
                c_invocation = valueOf (invocation c),
                durationMs = duration (Date_now ext) (startTime c),
                c_outcome = outcome c\<rparr>)"

definition createErrorResponse ::
  "ToolCallRequestInfo \<Rightarrow> thrown \<Rightarrow> ToolErrorType option \<Rightarrow> thrown + ToolCallResponseInfo"
  where
  "createErrorResponse req err et =
     (case getToolErrorMessage err of
        Inl x \<Rightarrow> Inl x
      | Inr em \<Rightarrow>
          Inr \<lparr>r_callId = callId req,
               responseParts =
                 [FunctionResponse (callId req) (name req) [(''error'', message em)]],
               resultDisplay = Some (display em),
               r_error = Some err,
               r_errorType = et,
               outputFile = None,
               contentLength = Some (length (message em))\<rparr>)"

definition createErrorResult ::
  "Collaborators \<Rightarrow> ToolCall \<Rightarrow> thrown \<Rightarrow> ToolErrorType option \<Rightarrow>
     thrown + CompletedToolCall" where
  "createErrorResult ext c err et =
     (let finalErrorType =
            (case err of ToolExecutionError _ _ t \<Rightarrow> t | _ \<Rightarrow> et)
      in case createErrorResponse (request c) err finalErrorType of
           Inl x \<Rightarrow> Inl x
         | Inr response \<Rightarrow>
             Inr \<lparr>c_status = Error,
                  c_request = request c,
                  c_response = response,
                  c_tool = valueOf (tool c),
                  c_invocation = None,
                  durationMs = duration (Date_now ext) (startTime c),
                  c_outcome = outcome c\<rparr>)"

subsection \<open>The success path and its output truncation\<close>

text \<open>
  Lines 233 to 270 of \<^verbatim>\<open>createSuccessResult\<close>: the content and the output file
  after the truncation of oversized shell output. A collaborator that throws ends the
  function there; the calls made before it stay in the list of effects.
\<close>

definition governOutput ::
  "Config \<Rightarrow> Collaborators \<Rightarrow> ToolCall \<Rightarrow> PartListUnion \<Rightarrow>
     Effect list \<times> (thrown + PartListUnion \<times> string option)" where
  "governOutput cfg ext c content =
     (let toolName = name (request c); cid = callId (request c) in
      case content of
        PartsContent _ \<Rightarrow> ([], Inr (content, None))
      | StringContent s \<Rightarrow>
          if toolName = SHELL_TOOL_NAME ext \<and> getEnableToolOutputTruncation cfg \<and>
             0 < getTruncateToolOutputThreshold cfg \<and> 0 < getTruncateToolOutputLines cfg
          then
            (let originalLength = length s;
                 threshold = getTruncateToolOutputThreshold cfg;
                 lines = getTruncateToolOutputLines cfg;
                 saving = SaveTruncatedToolOutput s toolName cid (getProjectTempDir cfg)
             in if threshold < int (length s)
                then
                  (case saveTruncatedToolOutput ext s toolName cid (getProjectTempDir cfg) of
                     Inl e \<Rightarrow> ([saving], Inl e)
                   | Inr savedPath \<Rightarrow>
                       (case formatTruncatedToolOutput ext s savedPath lines of
                          Inl e \<Rightarrow> ([saving], Inl e)
                        | Inr s' \<Rightarrow>
                            (let ev = \<lparr>ev_prompt_id = prompt_id (request c),
                                       ev_toolName = toolName,
                                       originalContentLength = originalLength,
                                       truncatedContentLength = length s',
                                       ev_threshold = threshold,
                                       ev_lines = lines\<rparr>
                             in case logToolOutputTruncated ext ev of
                                  Some e \<Rightarrow> ([saving, LogToolOutputTruncated ev], Inl e)
                                | None \<Rightarrow>
                                    ([saving, LogToolOutputTruncated ev],
                                     Inr (StringContent s', Some savedPath)))))
                else ([], Inr (content, None)))
          else ([], Inr (content, None)))"

definition contentLengthOf :: "PartListUnion \<Rightarrow> nat option" where
  "contentLengthOf content =
     (case content of StringContent s \<Rightarrow> Some (length s) | PartsContent _ \<Rightarrow> None)"

definition createSuccessResult ::
  "Config \<Rightarrow> Collaborators \<Rightarrow> ToolCall \<Rightarrow> ToolResult \<Rightarrow>
     Effect list \<times> (thrown + CompletedToolCall)" where
  "createSuccessResult cfg ext c toolResult =
     (let toolName = name (request c); cid = callId (request c) in
      case governOutput cfg ext c (llmContent toolResult) of
        (effs, Inl e) \<Rightarrow> (effs, Inl e)
      | (effs, Inr (content, outFile)) \<Rightarrow>
          (case convertToFunctionResponse ext toolName cid content (getActiveModel cfg) of
             Inl e \<Rightarrow> (effs, Inl e)
           | Inr response \<Rightarrow>
               if tool c = Missing \<or> invocation c = Missing
               then (effs, Inl (OtherError ''Successful tool call missing tool or invocation''))
               else (effs,
                     Inr \<lparr>c_status = Success,
                          c_request = request c,
                          c_response =
                            \<lparr>r_callId = cid,
                             responseParts = response,
                             resultDisplay = returnDisplay toolResult,
                             r_error = None,
                             r_errorType = None,
                             outputFile = outFile,
                             contentLength = contentLengthOf content\<rparr>,
                          c_tool = valueOf (tool c),
                          c_invocation = valueOf (invocation c),
                          durationMs = duration (Date_now ext) (startTime c),
                          c_outcome = outcome c\<rparr>)))"

subsection \<open>execute\<close>

text \<open>
  The two callbacks built by \<^verbatim>\<open>execute\<close>. \<^verbatim>\<open>setPidCallback\<close> publishes a
  copy of the call in the status \<^verbatim>\<open>executing\<close>; it exists for a
  \<^verbatim>\<open>ShellToolInvocation\<close> only. \<^verbatim>\<open>liveOutputCallback\<close> exists when the tool
  can update its output and the context has an output handler.
\<close>

definition setPidCallback ::
  "ToolCall \<Rightarrow> AnyDeclarativeTool \<Rightarrow> AnyToolInvocation \<Rightarrow> nat \<Rightarrow> Effect list" where
  "setPidCallback c t i p =
     [OnUpdateToolCall
        (c\<lparr>status := Executing, tool := Defined t, invocation := Defined i, pid := Some p,
           startTime := startTime c\<rparr>)]"

definition liveOutputCallback :: "ToolCall \<Rightarrow> string \<Rightarrow> Effect list" where
  "liveOutputCallback c outputChunk = [OutputUpdate (callId (request c)) outputChunk]"

text \<open>
  The effect of one action of the invocation layer. \<open>iv\<close> is the value read from
  \<^verbatim>\<open>call.invocation\<close>; \<^verbatim>\<open>undefined\<close> is no instance of
  \<^verbatim>\<open>ShellToolInvocation\<close>.
\<close>

definition hookEffects ::
  "ToolExecutionContext \<Rightarrow> AnyDeclarativeTool \<Rightarrow> AnyToolInvocation option \<Rightarrow> HookAction \<Rightarrow>
     Effect list" where
  "hookEffects ctx t iv a =
     (case a of
        SetPid p \<Rightarrow>
          (case iv of
             Some i \<Rightarrow> if isShellToolInvocation i then setPidCallback (call ctx) t i p else []
           | None \<Rightarrow> [])
      | LiveOutput chunk \<Rightarrow>
          if canUpdateOutput t \<and> outputUpdateHandler ctx
          then liveOutputCallback (call ctx) chunk else [])"

text \<open>The body of the \<^verbatim>\<open>try\<close>; \<open>Inl\<close> is a value thrown inside it.\<close>

definition tryBlock ::
  "Config \<Rightarrow> Collaborators \<Rightarrow> ToolExecutionContext \<Rightarrow> AnyDeclarativeTool \<Rightarrow>
     AnyToolInvocation option \<Rightarrow> Effect list \<times> (thrown + CompletedToolCall)" where
  "tryBlock cfg ext ctx t i =
     (let c = call ctx;
          run = executeToolWithHooks ext i (name (request c)) t;
          effs = concat (map (hookEffects ctx t i) (actions run))
      in case settlement run of
           Inl e \<Rightarrow> (effs, Inl e)
         | Inr toolResult \<Rightarrow>
             if aborted_after_await (signal ctx)
             then (effs @ [SpanOutput toolResult],
                   createCancelledResult ext c ''User cancelled tool execution.'')
             else
               (case tr_error toolResult of
                  None \<Rightarrow>
                    (case createSuccessResult cfg ext c toolResult of
                       (effs', r) \<Rightarrow> (effs @ [SpanOutput toolResult] @ effs', r))
                | Some d \<Rightarrow>
                    (effs @ [SpanOutput toolResult],
                     createErrorResult ext c
                       (ToolExecutionError (tre_message d) (returnDisplay toolResult)
                          (tre_type d))
                       None)))"

text \<open>
  The \<^verbatim>\<open>catch\<close> block. What it throws leaves \<^verbatim>\<open>execute\<close>:
  \<^verbatim>\<open>getToolErrorMessage\<close> is called outside any \<^verbatim>\<open>try\<close>.
\<close>

definition catchBlock ::
  "Collaborators \<Rightarrow> ToolExecutionContext \<Rightarrow> thrown \<Rightarrow>
     Effect list \<times> (thrown + CompletedToolCall)" where
  "catchBlock ext ctx executionError =
     ([SpanError executionError],
      if aborted_in_catch (signal ctx)
      then createCancelledResult ext (call ctx) ''User cancelled tool execution.''
      else
        (case getToolErrorMessage executionError of
           Inl x \<Rightarrow> Inl x
         | Inr em \<Rightarrow>
             (let finalErrorType =
                    (case errorType em of Some k \<Rightarrow> k | None \<Rightarrow> UNHANDLED_EXCEPTION)
              in createErrorResult ext (call ctx)
                   (ToolExecutionError (message em) (Some (display em)) (Some finalErrorType))
                   None)))"

definition execute ::
  "Config \<Rightarrow> Collaborators \<Rightarrow> ToolExecutionContext \<Rightarrow>
     Effect list \<times> (thrown + CompletedToolCall)" where
  "execute cfg ext ctx =
     (let c = call ctx in
      if tool c = Missing \<or> valueOf (tool c) = None \<or> invocation c = Missing
      then ([],
            Inl (OtherError
                   (''Cannot execute tool call '' @ callId (request c) @
                    '': Tool or Invocation missing.'')))
      else
        (case tryBlock cfg ext ctx (the (valueOf (tool c))) (valueOf (invocation c)) of
           (effs, Inr r) \<Rightarrow> (SpanInput (request c) # effs, Inr r)
         | (effs, Inl e) \<Rightarrow>
             (case catchBlock ext ctx e of
                (effs', r) \<Rightarrow> (SpanInput (request c) # effs @ effs', r))))"

subsection \<open>Notions the properties are stated with\<close>

text \<open>The run of the hook-wrapped invocation that \<^verbatim>\<open>execute\<close> awaits.\<close>

definition theRun :: "Collaborators \<Rightarrow> ToolExecutionContext \<Rightarrow> HookRun" where
  "theRun ext ctx =
     executeToolWithHooks ext (valueOf (invocation (call ctx))) (name (request (call ctx)))
       (the (valueOf (tool (call ctx))))"

text \<open>
  The value of \<^verbatim>\<open>signal.aborted\<close> at the first read after the invocation's promise
  has settled: the read after the \<^verbatim>\<open>await\<close> when it resolved, the read in the
  \<^verbatim>\<open>catch\<close> when it rejected.
\<close>

definition abortedAtCheckpoint :: "AbortSignal \<Rightarrow> HookRun \<Rightarrow> bool" where
  "abortedAtCheckpoint sig run =
     (case settlement run of
        Inr _ \<Rightarrow> aborted_after_await sig
      | Inl _ \<Rightarrow> aborted_in_catch sig)"

definition statusOf :: "thrown + CompletedToolCall \<Rightarrow> Status option" where
  "statusOf r = (case r of Inl _ \<Rightarrow> None | Inr tc \<Rightarrow> Some (c_status tc))"

text \<open>
  The precedence in the words of the specification (section 4.1, step 6): aborted, else
  a thrown fault, else an error descriptor, else success.
\<close>

definition specPrecedence :: "AbortSignal \<Rightarrow> HookRun \<Rightarrow> Status" where
  "specPrecedence sig run =
     (if abortedAtCheckpoint sig run then Cancelled
      else case settlement run of
             Inl _ \<Rightarrow> Error
           | Inr r \<Rightarrow> (case tr_error r of Some _ \<Rightarrow> Error | None \<Rightarrow> Success))"

text \<open>The invocation resolved and \<^verbatim>\<open>createSuccessResult\<close> throws on its result.\<close>

definition successFaulted :: "Config \<Rightarrow> Collaborators \<Rightarrow> ToolExecutionContext \<Rightarrow> bool" where
  "successFaulted cfg ext ctx =
     (case settlement (theRun ext ctx) of
        Inl _ \<Rightarrow> False
      | Inr r \<Rightarrow> isl (snd (createSuccessResult cfg ext (call ctx) r)))"

text \<open>The response of a call cancelled by \<^verbatim>\<open>execute\<close>.\<close>

definition cancelledResponse :: "ToolCallRequestInfo \<Rightarrow> ToolCallResponseInfo" where
  "cancelledResponse req =
     \<lparr>r_callId = callId req,
      responseParts =
        [FunctionResponse (callId req) (name req)
           [(''error'', ''[Operation Cancelled] User cancelled tool execution.'')]],
      resultDisplay = None, r_error = None, r_errorType = None, outputFile = None,
      contentLength = Some 52\<rparr>"

text \<open>The calls handed to \<^verbatim>\<open>onUpdateToolCall\<close>, in order.\<close>

fun updatesOf :: "Effect \<Rightarrow> ToolCall list" where
  "updatesOf (OnUpdateToolCall u) = [u]"
| "updatesOf _ = []"

definition publishedCalls :: "Effect list \<Rightarrow> ToolCall list" where
  "publishedCalls effs = concat (map updatesOf effs)"

text \<open>The process identities the invocation layer reports, in order.\<close>

fun pidsOf :: "HookAction list \<Rightarrow> nat list" where
  "pidsOf [] = []"
| "pidsOf (SetPid p # as) = p # pidsOf as"
| "pidsOf (LiveOutput _ # as) = pidsOf as"

text \<open>
  The kind \<^verbatim>\<open>execute\<close> gives a caught fault that the classifier returns for: its
  own, else unhandled.
\<close>

definition kindOf :: "thrown \<Rightarrow> ToolErrorType option" where
  "kindOf e =
     (case getToolErrorMessage e of
        Inl _ \<Rightarrow> None
      | Inr em \<Rightarrow>
          Some (case errorType em of Some k \<Rightarrow> k | None \<Rightarrow> UNHANDLED_EXCEPTION))"

text \<open>
  The value the \<^verbatim>\<open>catch\<close> block receives in a run of \<^verbatim>\<open>execute\<close>, if any: the
  rejection of the invocation, or what \<^verbatim>\<open>createSuccessResult\<close> throws.
\<close>

definition faultCaught ::
  "Config \<Rightarrow> Collaborators \<Rightarrow> ToolExecutionContext \<Rightarrow> thrown option" where
  "faultCaught cfg ext ctx =
     (case settlement (theRun ext ctx) of
        Inl e \<Rightarrow> Some e
      | Inr r \<Rightarrow>
          if aborted_after_await (signal ctx) then None
          else (case tr_error r of
                  Some _ \<Rightarrow> None
                | None \<Rightarrow>
                    (case snd (createSuccessResult cfg ext (call ctx) r) of
                       Inl f \<Rightarrow> Some f
                     | Inr _ \<Rightarrow> None)))"

text \<open>The classifier returns for the value: it is an error, or has a string.\<close>

definition classifiable :: "thrown \<Rightarrow> bool" where
  "classifiable e = (case getToolErrorMessage e of Inl _ \<Rightarrow> False | Inr _ \<Rightarrow> True)"

definition errorParts :: "ToolCallRequestInfo \<Rightarrow> string \<Rightarrow> Part list" where
  "errorParts req msg = [FunctionResponse (callId req) (name req) [(''error'', msg)]]"

subsection \<open>Concrete inputs\<close>

definition exRequest :: "string \<Rightarrow> ToolCallRequestInfo" where
  "exRequest toolName = \<lparr>callId = ''call-1'', name = toolName, prompt_id = ''prompt-1''\<rparr>"

definition exTool :: AnyDeclarativeTool where
  "exTool = \<lparr>tool_name = ''run_shell_command'', canUpdateOutput = True\<rparr>"

definition exCall :: "string \<Rightarrow> int option \<Rightarrow> ToolCall" where
  "exCall toolName st =
     \<lparr>status = Pending, request = exRequest toolName, tool = Defined exTool,
      invocation = Defined (ShellToolInvocation ''ls -R''), startTime = st, outcome = None,
      pid = None\<rparr>"

definition exReadFileCall :: "int option \<Rightarrow> ToolCall" where
  "exReadFileCall st =
     \<lparr>status = Pending, request = exRequest ''read_file'',
      tool = Defined \<lparr>tool_name = ''read_file'', canUpdateOutput = False\<rparr>,
      invocation = Defined (OtherToolInvocation ''/var/log/syslog''), startTime = st,
      outcome = None, pid = None\<rparr>"

definition exConfig :: "bool \<Rightarrow> int \<Rightarrow> int \<Rightarrow> Config" where
  "exConfig enabled threshold lines =
     \<lparr>getEnableToolOutputTruncation = enabled,
      getTruncateToolOutputThreshold = threshold,
      getTruncateToolOutputLines = lines,
      getProjectTempDir = ''/tmp/project'',
      getActiveModel = ''model-1''\<rparr>"

definition exResult :: "string \<Rightarrow> ToolResult" where
  "exResult content =
     \<lparr>llmContent = StringContent content, returnDisplay = Some ''done'', tr_error = None\<rparr>"

definition exErrorResult :: ToolResult where
  "exErrorResult =
     \<lparr>llmContent = StringContent ''exit code 2'', returnDisplay = Some ''Command failed'',
      tr_error = Some \<lparr>tre_message = ''exit code 2'',
                       tre_type = Some (OtherToolErrorType ''shell_execute_error'')\<rparr>\<rparr>"

text \<open>
  Collaborators for the concrete inputs: the run of the invocation, the outcome of the
  artifact store and the clock are given; the formatter returns a stub that names the
  saved file; telemetry and the transcript conversion do not throw.
\<close>

definition exCollaborators :: "HookRun \<Rightarrow> thrown + string \<Rightarrow> int \<Rightarrow> Collaborators" where
  "exCollaborators run saved now =
     \<lparr>SHELL_TOOL_NAME = ''run_shell_command'',
      executeToolWithHooks = (\<lambda>_ _ _. run),
      saveTruncatedToolOutput = (\<lambda>_ _ _ _. saved),
      formatTruncatedToolOutput =
        (\<lambda>_ file _. Inr (''Output truncated. Full output saved to: '' @ file)),
      logToolOutputTruncated = (\<lambda>_. None),
      convertToFunctionResponse =
        (\<lambda>toolName cid content _.
            Inr [FunctionResponse cid toolName
                   [(''output'', case content of StringContent s \<Rightarrow> s | PartsContent _ \<Rightarrow> [])]]),
      Date_now = now\<rparr>"

definition exContext :: "ToolCall \<Rightarrow> bool \<Rightarrow> bool \<Rightarrow> ToolExecutionContext" where
  "exContext c abortedAfterAwait abortedInCatch =
     \<lparr>call = c,
      signal = \<lparr>aborted_after_await = abortedAfterAwait, aborted_in_catch = abortedInCatch\<rparr>,
      outputUpdateHandler = True\<rparr>"

definition exRun :: "HookAction list \<Rightarrow> thrown + ToolResult \<Rightarrow> HookRun" where
  "exRun as s = \<lparr>actions = as, settlement = s\<rparr>"

section \<open>Properties\<close>

subsection \<open>What execute returns\<close>

lemma createCancelledResult_present:
  assumes "tool c \<noteq> Missing" "invocation c \<noteq> Missing"
  shows "createCancelledResult ext c ''User cancelled tool execution.'' =
     Inr \<lparr>c_status = Cancelled, c_request = request c,
          c_response = cancelledResponse (request c),
          c_tool = valueOf (tool c), c_invocation = valueOf (invocation c),
          durationMs = duration (Date_now ext) (startTime c), c_outcome = outcome c\<rparr>"
  using assms by (simp add: createCancelledResult_def cancelledResponse_def)

lemma createErrorResult_structured:
  "createErrorResult ext c (ToolExecutionError m rd et) x =
     Inr \<lparr>c_status = Error, c_request = request c,
          c_response =
            \<lparr>r_callId = callId (request c),
             responseParts = errorParts (request c) m,
             resultDisplay = Some (case rd of Some d \<Rightarrow> d | None \<Rightarrow> m),
             r_error = Some (ToolExecutionError m rd et),
             r_errorType = et, outputFile = None, contentLength = Some (length m)\<rparr>,
          c_tool = valueOf (tool c), c_invocation = None,
          durationMs = duration (Date_now ext) (startTime c), c_outcome = outcome c\<rparr>"
  by (simp add: createErrorResult_def createErrorResponse_def errorParts_def)

lemma catchBlock_result:
  assumes "tool (call ctx) = Defined t" "invocation (call ctx) \<noteq> Missing"
  shows "snd (catchBlock ext ctx e) =
     (if aborted_in_catch (signal ctx)
      then Inr \<lparr>c_status = Cancelled, c_request = request (call ctx),
          c_response = cancelledResponse (request (call ctx)),
          c_tool = Some t, c_invocation = valueOf (invocation (call ctx)),
          durationMs = duration (Date_now ext) (startTime (call ctx)),
          c_outcome = outcome (call ctx)\<rparr>
      else (case getToolErrorMessage e of
              Inl x \<Rightarrow> Inl x
            | Inr em \<Rightarrow>
                createErrorResult ext (call ctx)
                  (ToolExecutionError (message em) (Some (display em)) (kindOf e))
                  None))"
  using assms
  by (simp add: catchBlock_def createCancelledResult_present Let_def kindOf_def
      split: sum.splits)

lemma execute_missing:
  assumes "tool (call ctx) = Missing \<or> valueOf (tool (call ctx)) = None \<or>
           invocation (call ctx) = Missing"
  shows "execute cfg ext ctx =
     ([], Inl (OtherError (''Cannot execute tool call '' @ callId (request (call ctx)) @
                           '': Tool or Invocation missing.'')))"
  using assms by (auto simp: execute_def)

lemma execute_result:
  assumes "tool (call ctx) = Defined t" "invocation (call ctx) \<noteq> Missing"
  shows "snd (execute cfg ext ctx) =
     (case settlement (theRun ext ctx) of
        Inl e \<Rightarrow> snd (catchBlock ext ctx e)
      | Inr r \<Rightarrow>
          if aborted_after_await (signal ctx)
          then createCancelledResult ext (call ctx) ''User cancelled tool execution.''
          else (case tr_error r of
                  Some d \<Rightarrow>
                    createErrorResult ext (call ctx)
                      (ToolExecutionError (tre_message d) (returnDisplay r) (tre_type d))
                      None
                | None \<Rightarrow>
                    (case snd (createSuccessResult cfg ext (call ctx) r) of
                       Inr sc \<Rightarrow> Inr sc
                     | Inl f \<Rightarrow> snd (catchBlock ext ctx f))))"
  using assms
  by (auto simp: execute_def tryBlock_def theRun_def Let_def createCancelledResult_present
      createErrorResult_structured
      split: sum.splits prod.splits option.splits)

lemma createSuccessResult_status:
  "snd (createSuccessResult cfg ext c r) = Inr sc \<Longrightarrow> c_status sc = Success"
  by (auto simp: createSuccessResult_def Let_def split: sum.splits prod.splits if_splits)

lemma createSuccessResult_duration:
  "snd (createSuccessResult cfg ext c r) = Inr sc \<Longrightarrow>
     durationMs sc = duration (Date_now ext) (startTime c)"
  by (auto simp: createSuccessResult_def Let_def split: sum.splits prod.splits if_splits)

lemma statusOf_catchBlock:
  assumes "tool (call ctx) = Defined t" "invocation (call ctx) \<noteq> Missing"
  shows "statusOf (snd (catchBlock ext ctx e)) =
     (if aborted_in_catch (signal ctx) then Some Cancelled
      else if classifiable e then Some Error else None)"
  using assms
  by (simp add: catchBlock_result statusOf_def createErrorResult_structured classifiable_def
      split: sum.splits)

lemma statusOf_execute:
  assumes "tool (call ctx) = Defined t" and "invocation (call ctx) \<noteq> Missing"
  shows "statusOf (snd (execute cfg ext ctx)) =
     (case settlement (theRun ext ctx) of
        Inl e \<Rightarrow> statusOf (snd (catchBlock ext ctx e))
      | Inr r \<Rightarrow>
          if aborted_after_await (signal ctx) then Some Cancelled
          else (case tr_error r of
                  Some d \<Rightarrow> Some Error
                | None \<Rightarrow>
                    (case snd (createSuccessResult cfg ext (call ctx) r) of
                       Inl f \<Rightarrow> statusOf (snd (catchBlock ext ctx f))
                     | Inr sc \<Rightarrow> Some Success)))"
proof (cases "settlement (theRun ext ctx)")
  case (Inl e)
  then show ?thesis
    using assms by (simp add: execute_result)
next
  case (Inr r)
  show ?thesis
  proof (cases "aborted_after_await (signal ctx)")
    case True
    then show ?thesis
      using assms Inr by (simp add: execute_result createCancelledResult_present statusOf_def)
  next
    case notAborted: False
    show ?thesis
    proof (cases "tr_error r")
      case (Some d)
      then show ?thesis
        using assms Inr notAborted
        by (simp add: execute_result statusOf_def createErrorResult_structured)
    next
      case None
      show ?thesis
      proof (cases "snd (createSuccessResult cfg ext (call ctx) r)")
        case (Inl f)
        then show ?thesis
          using assms Inr notAborted None by (simp add: execute_result)
      next
        case (Inr sc)
        then show ?thesis
          using assms \<open>settlement (theRun ext ctx) = Inr r\<close> notAborted None
          by (simp add: execute_result statusOf_def createSuccessResult_status)
      qed
    qed
  qed
qed

subsection \<open>Cancellation\<close>

text \<open>
  C1. Whenever the token is aborted at the checkpoint that follows the settlement of the
  invocation (the read after the \<^verbatim>\<open>await\<close> when it resolved, with a success
  payload or with an error descriptor; the read in the \<^verbatim>\<open>catch\<close> when it threw),
  \<^verbatim>\<open>execute\<close> returns a call of status \<^verbatim>\<open>cancelled\<close> whose response error
  text is \<^verbatim>\<open>[Operation Cancelled] User cancelled tool execution.\<close>
\<close>

theorem cancellation_wins_at_checkpoint:
  assumes "tool (call ctx) = Defined t" and "invocation (call ctx) \<noteq> Missing"
    and "abortedAtCheckpoint (signal ctx) (theRun ext ctx)"
  shows "\<exists>tc. snd (execute cfg ext ctx) = Inr tc \<and> c_status tc = Cancelled \<and>
           responseParts (c_response tc) =
             errorParts (request (call ctx))
               ''[Operation Cancelled] User cancelled tool execution.''"
  using assms
  by (auto simp: execute_result catchBlock_result abortedAtCheckpoint_def
      createCancelledResult_present cancelledResponse_def errorParts_def split: sum.splits)

theorem cancellation_wins_at_checkpoint_witness:
  "abortedAtCheckpoint (signal (exContext (exCall ''run_shell_command'' (Some 1000)) True True))
     (theRun (exCollaborators (exRun [] (Inl (OtherError ''spawn failed''))) (Inr ''f'') 5000)
        (exContext (exCall ''run_shell_command'' (Some 1000)) True True)) \<and>
   statusOf (snd (execute (exConfig True 500 5)
      (exCollaborators (exRun [] (Inl (OtherError ''spawn failed''))) (Inr ''f'') 5000)
      (exContext (exCall ''run_shell_command'' (Some 1000)) True True))) = Some Cancelled"
proof -
  let ?ctx = "exContext (exCall ''run_shell_command'' (Some 1000)) True True"
  let ?ext = "exCollaborators (exRun [] (Inl (OtherError ''spawn failed''))) (Inr ''f'') 5000"
  have h1: "tool (call ?ctx) = Defined exTool" and h2: "invocation (call ?ctx) \<noteq> Missing"
    by (simp_all add: exContext_def exCall_def)
  have h3: "abortedAtCheckpoint (signal ?ctx) (theRun ?ext ?ctx)"
    by (simp add: abortedAtCheckpoint_def theRun_def exContext_def exCollaborators_def
        exRun_def)
  from cancellation_wins_at_checkpoint [OF h1 h2 h3, of "exConfig True 500 5"]
  have "statusOf (snd (execute (exConfig True 500 5) ?ext ?ctx)) = Some Cancelled"
    by (auto simp: statusOf_def)
  with h3 show ?thesis
    by simp
qed

subsection \<open>The terminal status\<close>

text \<open>
  C2, as stated, fails: the invocation resolves without an error descriptor, the token
  is never aborted, the artifact store rejects while the oversized shell output is
  saved; the precedence of the specification gives \<^verbatim>\<open>success\<close>, \<^verbatim>\<open>execute\<close>
  returns a call of status \<^verbatim>\<open>error\<close>.
\<close>

theorem status_precedence_counterexample:
  "specPrecedence
      (signal (exContext (exCall ''run_shell_command'' (Some 1000)) False False))
      (theRun (exCollaborators (exRun [] (Inr (exResult (replicate 1000 CHR ''x''))))
                 (Inl (OtherError ''ENOSPC: no space left on device'')) 5000)
              (exContext (exCall ''run_shell_command'' (Some 1000)) False False)) = Success \<and>
   statusOf (snd (execute (exConfig True 500 5)
      (exCollaborators (exRun [] (Inr (exResult (replicate 1000 CHR ''x''))))
         (Inl (OtherError ''ENOSPC: no space left on device'')) 5000)
      (exContext (exCall ''run_shell_command'' (Some 1000)) False False))) = Some Error"
  by (simp add: specPrecedence_def abortedAtCheckpoint_def theRun_def exContext_def exCall_def
      exCollaborators_def exRun_def exResult_def statusOf_def execute_def tryBlock_def
      catchBlock_def createSuccessResult_def governOutput_def exConfig_def exRequest_def
      createErrorResult_def createErrorResponse_def Let_def)

text \<open>
  C2, amended. For a call with tool and invocation, \<^verbatim>\<open>execute\<close> returns one
  terminal call, provided that a fault it catches while the token is not aborted is one
  the classifier returns for (an error, or a value \<^verbatim>\<open>String\<close> converts). The status
  of the call is the one the precedence of the specification gives (aborted, else thrown
  fault, else error descriptor, else success), except that where the precedence gives
  success and building the success result throws, the status is \<^verbatim>\<open>cancelled\<close> if
  the token is aborted when the fault is caught and \<^verbatim>\<open>error\<close> otherwise.
\<close>

theorem status_precedence:
  assumes "tool (call ctx) = Defined t" and "invocation (call ctx) \<noteq> Missing"
    and "\<forall>e. faultCaught cfg ext ctx = Some e \<longrightarrow>
           aborted_in_catch (signal ctx) \<or> classifiable e"
  shows "statusOf (snd (execute cfg ext ctx)) =
     Some (if specPrecedence (signal ctx) (theRun ext ctx) = Success \<and>
              successFaulted cfg ext ctx
           then (if aborted_in_catch (signal ctx) then Cancelled else Error)
           else specPrecedence (signal ctx) (theRun ext ctx))"
proof (cases "faultCaught cfg ext ctx")
  case None
  then show ?thesis
    unfolding statusOf_execute [OF assms(1,2)]
    by (auto simp: faultCaught_def specPrecedence_def successFaulted_def
        abortedAtCheckpoint_def split: sum.splits option.splits if_splits)
next
  case (Some e)
  with assms(3) have ok: "aborted_in_catch (signal ctx) \<or> classifiable e"
    by simp
  have caught: "statusOf (snd (catchBlock ext ctx e)) =
      Some (if aborted_in_catch (signal ctx) then Cancelled else Error)"
    using ok by (auto simp: statusOf_catchBlock [OF assms(1,2)])
  show ?thesis
    unfolding statusOf_execute [OF assms(1,2)]
    using Some caught
    by (auto simp: faultCaught_def specPrecedence_def successFaulted_def
        abortedAtCheckpoint_def split: sum.splits option.splits if_splits)
qed

theorem status_precedence_witness:
  "statusOf (snd (execute (exConfig True 500 5)
      (exCollaborators (exRun [] (Inl (NonErrorValue ''killed''))) (Inr ''f'') 5000)
      (exContext (exCall ''run_shell_command'' (Some 1000)) False False))) = Some Error"
proof -
  let ?ctx = "exContext (exCall ''run_shell_command'' (Some 1000)) False False"
  let ?ext = "exCollaborators (exRun [] (Inl (NonErrorValue ''killed''))) (Inr ''f'') 5000"
  let ?cfg = "exConfig True 500 5"
  have h1: "tool (call ?ctx) = Defined exTool" and h2: "invocation (call ?ctx) \<noteq> Missing"
    by (simp_all add: exContext_def exCall_def)
  have run: "settlement (theRun ?ext ?ctx) = Inl (NonErrorValue ''killed'')"
    by (simp add: theRun_def exCollaborators_def exRun_def)
  have h3: "\<forall>e. faultCaught ?cfg ?ext ?ctx = Some e \<longrightarrow>
      aborted_in_catch (signal ?ctx) \<or> classifiable e"
    by (simp add: faultCaught_def run classifiable_def)
  have sig: "\<not> aborted_in_catch (signal ?ctx)"
    by (simp add: exContext_def)
  have "specPrecedence (signal ?ctx) (theRun ?ext ?ctx) = Error"
    by (simp add: specPrecedence_def abortedAtCheckpoint_def run sig)
  with status_precedence [OF h1 h2 h3] show ?thesis
    by simp
qed

subsection \<open>Output truncation\<close>

lemma governOutput_off:
  assumes "name (request c) \<noteq> SHELL_TOOL_NAME ext \<or> \<not> getEnableToolOutputTruncation cfg \<or>
           getTruncateToolOutputThreshold cfg \<le> 0 \<or> getTruncateToolOutputLines cfg \<le> 0"
  shows "governOutput cfg ext c content = ([], Inr (content, None))"
  using assms by (auto simp: governOutput_def Let_def split: PartListUnion.splits)

lemma createSuccessResult_ungoverned:
  assumes "governOutput cfg ext c (llmContent r) = ([], Inr (llmContent r, None))"
  shows "fst (createSuccessResult cfg ext c r) = [] \<and>
     (\<forall>sc. snd (createSuccessResult cfg ext c r) = Inr sc \<longrightarrow>
        convertToFunctionResponse ext (name (request c)) (callId (request c)) (llmContent r)
            (getActiveModel cfg) = Inr (responseParts (c_response sc)) \<and>
        outputFile (c_response sc) = None \<and>
        contentLength (c_response sc) = contentLengthOf (llmContent r))"
  using assms by (auto simp: createSuccessResult_def Let_def split: sum.splits if_splits)

text \<open>
  C7. When the configured threshold is at most 0 or the configured number of preview
  lines is at most 0, the truncation step does nothing, whatever the content and its
  length: nothing is saved and no telemetry is emitted, the content handed to the
  transcript conversion is the content of the tool result, the response has no output
  file, and its content length is that of the unchanged content.
\<close>

theorem governance_disabled_by_threshold_or_lines:
  assumes "getTruncateToolOutputThreshold cfg \<le> 0 \<or> getTruncateToolOutputLines cfg \<le> 0"
  shows "governOutput cfg ext c (llmContent r) = ([], Inr (llmContent r, None)) \<and>
     fst (createSuccessResult cfg ext c r) = [] \<and>
     (\<forall>sc. snd (createSuccessResult cfg ext c r) = Inr sc \<longrightarrow>
        convertToFunctionResponse ext (name (request c)) (callId (request c)) (llmContent r)
            (getActiveModel cfg) = Inr (responseParts (c_response sc)) \<and>
        outputFile (c_response sc) = None \<and>
        contentLength (c_response sc) = contentLengthOf (llmContent r))"
proof -
  have off: "governOutput cfg ext c (llmContent r) = ([], Inr (llmContent r, None))"
    using assms by (intro governOutput_off) auto
  then show ?thesis
    using createSuccessResult_ungoverned [OF off] by simp
qed

theorem governance_disabled_by_threshold_or_lines_witness:
  "getTruncateToolOutputThreshold (exConfig True 0 5) \<le> 0 \<and>
   fst (createSuccessResult (exConfig True 0 5)
          (exCollaborators (exRun [] (Inr (exResult (replicate 10000 CHR ''x'')))) (Inr ''f'') 5000)
          (exCall ''run_shell_command'' (Some 1000))
          (exResult (replicate 10000 CHR ''x''))) = [] \<and>
   map_sum id (\<lambda>sc. (outputFile (c_response sc), contentLength (c_response sc)))
     (snd (createSuccessResult (exConfig True 0 5)
          (exCollaborators (exRun [] (Inr (exResult (replicate 10000 CHR ''x'')))) (Inr ''f'') 5000)
          (exCall ''run_shell_command'' (Some 1000))
          (exResult (replicate 10000 CHR ''x'')))) = Inr (None, Some 10000)"
proof -
  let ?cfg = "exConfig True 0 5"
  let ?ext = "exCollaborators (exRun [] (Inr (exResult (replicate 10000 CHR ''x'')))) (Inr ''f'') 5000"
  let ?c = "exCall ''run_shell_command'' (Some 1000)"
  let ?r = "exResult (replicate 10000 CHR ''x'')"
  have h: "getTruncateToolOutputThreshold ?cfg \<le> 0 \<or> getTruncateToolOutputLines ?cfg \<le> 0"
    by (simp add: exConfig_def)
  obtain sc where sc: "snd (createSuccessResult ?cfg ?ext ?c ?r) = Inr sc"
    by (simp add: createSuccessResult_def governOutput_def exConfig_def exCollaborators_def
        exCall_def exResult_def exRequest_def Let_def)
  from governance_disabled_by_threshold_or_lines [OF h, of ?ext ?c ?r] sc
  have "fst (createSuccessResult ?cfg ?ext ?c ?r) = []"
    and "outputFile (c_response sc) = None"
    and "contentLength (c_response sc) = contentLengthOf (llmContent ?r)"
    by simp_all
  with sc h show ?thesis
    by (simp add: contentLengthOf_def exResult_def exConfig_def)
qed

text \<open>
  C9. When the tool is not the shell tool, or the flag that enables output truncation
  is off, the content is handed to the transcript conversion unchanged and the response
  has no output file, whatever the content length, the threshold and the number of
  preview lines.
\<close>

theorem governance_skipped_for_other_tools_or_flag_off:
  assumes "name (request c) \<noteq> SHELL_TOOL_NAME ext \<or> \<not> getEnableToolOutputTruncation cfg"
  shows "governOutput cfg ext c (llmContent r) = ([], Inr (llmContent r, None)) \<and>
     fst (createSuccessResult cfg ext c r) = [] \<and>
     (\<forall>sc. snd (createSuccessResult cfg ext c r) = Inr sc \<longrightarrow>
        convertToFunctionResponse ext (name (request c)) (callId (request c)) (llmContent r)
            (getActiveModel cfg) = Inr (responseParts (c_response sc)) \<and>
        outputFile (c_response sc) = None \<and>
        contentLength (c_response sc) = contentLengthOf (llmContent r))"
proof -
  have off: "governOutput cfg ext c (llmContent r) = ([], Inr (llmContent r, None))"
    using assms by (intro governOutput_off) auto
  then show ?thesis
    using createSuccessResult_ungoverned [OF off] by simp
qed

theorem governance_skipped_for_other_tools_or_flag_off_witness:
  "\<not> getEnableToolOutputTruncation (exConfig False 500 5) \<and>
   fst (createSuccessResult (exConfig False 500 5)
          (exCollaborators (exRun [] (Inr (exResult (replicate 1000 CHR ''x'')))) (Inr ''f'') 5000)
          (exCall ''run_shell_command'' (Some 1000))
          (exResult (replicate 1000 CHR ''x''))) = [] \<and>
   map_sum id (\<lambda>sc. (outputFile (c_response sc), contentLength (c_response sc)))
     (snd (createSuccessResult (exConfig False 500 5)
          (exCollaborators (exRun [] (Inr (exResult (replicate 1000 CHR ''x'')))) (Inr ''f'') 5000)
          (exCall ''run_shell_command'' (Some 1000))
          (exResult (replicate 1000 CHR ''x'')))) = Inr (None, Some 1000)"
proof -
  let ?cfg = "exConfig False 500 5"
  let ?ext = "exCollaborators (exRun [] (Inr (exResult (replicate 1000 CHR ''x'')))) (Inr ''f'') 5000"
  let ?c = "exCall ''run_shell_command'' (Some 1000)"
  let ?r = "exResult (replicate 1000 CHR ''x'')"
  have h: "name (request ?c) \<noteq> SHELL_TOOL_NAME ?ext \<or> \<not> getEnableToolOutputTruncation ?cfg"
    by (simp add: exConfig_def)
  obtain sc where sc: "snd (createSuccessResult ?cfg ?ext ?c ?r) = Inr sc"
    by (simp add: createSuccessResult_def governOutput_def exConfig_def exCollaborators_def
        exCall_def exResult_def exRequest_def Let_def)
  from governance_skipped_for_other_tools_or_flag_off [OF h, of ?r] sc
  have "fst (createSuccessResult ?cfg ?ext ?c ?r) = []"
    and "outputFile (c_response sc) = None"
    and "contentLength (c_response sc) = contentLengthOf (llmContent ?r)"
    by simp_all
  with sc h show ?thesis
    by (simp add: contentLengthOf_def exResult_def exConfig_def)
qed

text \<open>
  C3, as stated, fails. With threshold 500 and 5 preview lines, 1000 characters returned
  by a tool named \<^verbatim>\<open>read_file\<close> reach the response unchanged, with no output file
  and nothing saved or logged: truncation is for the shell tool only. And for the shell
  tool, with threshold 1 and content \<^verbatim>\<open>ab\<close>, a stub that names the saved file is
  longer than the content it replaces: \<^verbatim>\<open>createSuccessResult\<close> takes whatever the
  formatter returns.
\<close>

theorem oversized_output_counterexample:
  "0 < getTruncateToolOutputThreshold (exConfig True 500 5) \<and>
   0 < getTruncateToolOutputLines (exConfig True 500 5) \<and>
   getTruncateToolOutputThreshold (exConfig True 500 5) < int (length (replicate 1000 CHR ''x'')) \<and>
   createSuccessResult (exConfig True 500 5)
       (exCollaborators (exRun [] (Inr (exResult (replicate 1000 CHR ''x''))))
          (Inr ''/tmp/project/call-1.output'') 5000)
       (exReadFileCall (Some 1000))
       (exResult (replicate 1000 CHR ''x'')) =
     ([], Inr \<lparr>c_status = Success, c_request = exRequest ''read_file'',
               c_response =
                 \<lparr>r_callId = ''call-1'',
                  responseParts =
                    [FunctionResponse ''call-1'' ''read_file''
                       [(''output'', replicate 1000 CHR ''x'')]],
                  resultDisplay = Some ''done'', r_error = None, r_errorType = None,
                  outputFile = None, contentLength = Some 1000\<rparr>,
               c_tool = Some \<lparr>tool_name = ''read_file'', canUpdateOutput = False\<rparr>,
               c_invocation = Some (OtherToolInvocation ''/var/log/syslog''),
               durationMs = Some 4000, c_outcome = None\<rparr>) \<and>
   0 < getTruncateToolOutputThreshold (exConfig True 1 1) \<and>
   0 < getTruncateToolOutputLines (exConfig True 1 1) \<and>
   getTruncateToolOutputThreshold (exConfig True 1 1) < int (length ''ab'') \<and>
   map_sum id (\<lambda>sc. contentLength (c_response sc))
     (snd (createSuccessResult (exConfig True 1 1)
       (exCollaborators (exRun [] (Inr (exResult ''ab'')))
          (Inr ''/tmp/project/call-1.output'') 5000)
       (exCall ''run_shell_command'' (Some 1000))
       (exResult ''ab''))) = Inr (Some 66)"
  by (simp add: createSuccessResult_def governOutput_def exConfig_def exCollaborators_def
      exCall_def exReadFileCall_def exResult_def exRequest_def contentLengthOf_def
      duration_def Let_def)

text \<open>
  C3, amended. For a result of the shell tool, with output truncation enabled, a
  threshold and a number of preview lines above 0 and textual content longer than the
  threshold, every success call that \<^verbatim>\<open>createSuccessResult\<close> returns is built this
  way: the full content is saved by the artifact store, and the saved path is the
  output file of the response; the content is replaced by the stub of the formatter,
  and the content length of the response is the length of that stub; one telemetry
  record is emitted, whose original length is the length of the content and whose
  truncated length is the length of the stub.
\<close>

theorem oversized_shell_output_is_truncated:
  assumes "llmContent r = StringContent s"
    and "name (request c) = SHELL_TOOL_NAME ext"
    and "getEnableToolOutputTruncation cfg"
    and "0 < getTruncateToolOutputThreshold cfg"
    and "0 < getTruncateToolOutputLines cfg"
    and "getTruncateToolOutputThreshold cfg < int (length s)"
    and "snd (createSuccessResult cfg ext c r) = Inr sc"
  shows "\<exists>path s'.
     saveTruncatedToolOutput ext s (name (request c)) (callId (request c))
        (getProjectTempDir cfg) = Inr path \<and>
     formatTruncatedToolOutput ext s path (getTruncateToolOutputLines cfg) = Inr s' \<and>
     convertToFunctionResponse ext (name (request c)) (callId (request c)) (StringContent s')
        (getActiveModel cfg) = Inr (responseParts (c_response sc)) \<and>
     outputFile (c_response sc) = Some path \<and>
     contentLength (c_response sc) = Some (length s') \<and>
     fst (createSuccessResult cfg ext c r) =
       [SaveTruncatedToolOutput s (name (request c)) (callId (request c))
          (getProjectTempDir cfg),
        LogToolOutputTruncated
          \<lparr>ev_prompt_id = prompt_id (request c), ev_toolName = name (request c),
           originalContentLength = length s, truncatedContentLength = length s',
           ev_threshold = getTruncateToolOutputThreshold cfg,
           ev_lines = getTruncateToolOutputLines cfg\<rparr>]"
  using assms
  by (auto simp: createSuccessResult_def governOutput_def contentLengthOf_def Let_def
      split: sum.splits option.splits if_splits)

theorem oversized_shell_output_is_truncated_witness:
  "map_sum id (\<lambda>sc. (outputFile (c_response sc), contentLength (c_response sc)))
     (snd (createSuccessResult (exConfig True 500 5)
          (exCollaborators (exRun [] (Inr (exResult (replicate 1000 CHR ''x''))))
             (Inr ''/tmp/project/call-1.output'') 5000)
          (exCall ''run_shell_command'' (Some 1000))
          (exResult (replicate 1000 CHR ''x'')))) =
     Inr (Some ''/tmp/project/call-1.output'', Some 66) \<and>
   fst (createSuccessResult (exConfig True 500 5)
          (exCollaborators (exRun [] (Inr (exResult (replicate 1000 CHR ''x''))))
             (Inr ''/tmp/project/call-1.output'') 5000)
          (exCall ''run_shell_command'' (Some 1000))
          (exResult (replicate 1000 CHR ''x''))) =
     [SaveTruncatedToolOutput (replicate 1000 CHR ''x'') ''run_shell_command'' ''call-1''
        ''/tmp/project'',
      LogToolOutputTruncated
        \<lparr>ev_prompt_id = ''prompt-1'', ev_toolName = ''run_shell_command'',
         originalContentLength = 1000, truncatedContentLength = 66,
         ev_threshold = 500, ev_lines = 5\<rparr>]"
proof -
  let ?cfg = "exConfig True 500 5"
  let ?ext = "exCollaborators (exRun [] (Inr (exResult (replicate 1000 CHR ''x''))))
                (Inr ''/tmp/project/call-1.output'') 5000"
  let ?c = "exCall ''run_shell_command'' (Some 1000)"
  let ?r = "exResult (replicate 1000 CHR ''x'')"
  obtain sc where sc: "snd (createSuccessResult ?cfg ?ext ?c ?r) = Inr sc"
    by (simp add: createSuccessResult_def governOutput_def exConfig_def exCollaborators_def
        exCall_def exResult_def exRequest_def Let_def)
  have "\<exists>path s'.
     saveTruncatedToolOutput ?ext (replicate 1000 CHR ''x'') (name (request ?c))
        (callId (request ?c)) (getProjectTempDir ?cfg) = Inr path \<and>
     formatTruncatedToolOutput ?ext (replicate 1000 CHR ''x'') path
        (getTruncateToolOutputLines ?cfg) = Inr s' \<and>
     convertToFunctionResponse ?ext (name (request ?c)) (callId (request ?c))
        (StringContent s') (getActiveModel ?cfg) = Inr (responseParts (c_response sc)) \<and>
     outputFile (c_response sc) = Some path \<and>
     contentLength (c_response sc) = Some (length s') \<and>
     fst (createSuccessResult ?cfg ?ext ?c ?r) =
       [SaveTruncatedToolOutput (replicate 1000 CHR ''x'') (name (request ?c))
          (callId (request ?c)) (getProjectTempDir ?cfg),
        LogToolOutputTruncated
          \<lparr>ev_prompt_id = prompt_id (request ?c), ev_toolName = name (request ?c),
           originalContentLength = length (replicate 1000 CHR ''x''),
           truncatedContentLength = length s',
           ev_threshold = getTruncateToolOutputThreshold ?cfg,
           ev_lines = getTruncateToolOutputLines ?cfg\<rparr>]"
    by (rule oversized_shell_output_is_truncated [OF _ _ _ _ _ _ sc])
      (simp_all add: exConfig_def exCollaborators_def exCall_def exResult_def exRequest_def)
  then show ?thesis
    using sc
    by (auto simp: exConfig_def exCollaborators_def exCall_def exResult_def exRequest_def)
qed

subsection \<open>The error classifier and the error payload\<close>






subsection \<open>The process-identity callback\<close>

lemma publishedCalls_append [simp]:
  "publishedCalls (xs @ ys) = publishedCalls xs @ publishedCalls ys"
  by (simp add: publishedCalls_def)

lemma publishedCalls_Nil [simp]: "publishedCalls [] = []"
  by (simp add: publishedCalls_def)

lemma publishedCalls_Cons [simp]:
  "publishedCalls (x # xs) = updatesOf x @ publishedCalls xs"
  by (simp add: publishedCalls_def)

lemma publishedCalls_hookEffects:
  "publishedCalls (concat (map (hookEffects ctx t iv) as)) =
     (case iv of
        None \<Rightarrow> []
      | Some i \<Rightarrow>
          if isShellToolInvocation i
          then map (\<lambda>p. (call ctx)\<lparr>status := Executing, tool := Defined t,
                                    invocation := Defined i, pid := Some p\<rparr>) (pidsOf as)
          else [])"
  by (induction as rule: pidsOf.induct)
    (simp_all add: hookEffects_def setPidCallback_def liveOutputCallback_def
      split: option.splits)

lemma publishedCalls_governOutput: "publishedCalls (fst (governOutput cfg ext c content)) = []"
  by (simp add: governOutput_def Let_def split: PartListUnion.splits sum.splits option.splits)

lemma publishedCalls_createSuccessResult:
  "publishedCalls (fst (createSuccessResult cfg ext c r)) = []"
  using publishedCalls_governOutput [of cfg ext c "llmContent r"]
  by (auto simp: createSuccessResult_def Let_def split: prod.splits sum.splits)

lemma publishedCalls_createSuccessResult_pair:
  "createSuccessResult cfg ext c r = (effs, res) \<Longrightarrow> publishedCalls effs = []"
  using publishedCalls_createSuccessResult [of cfg ext c r] by simp

lemma publishedCalls_execute:
  assumes "tool (call ctx) = Defined t" and "invocation (call ctx) \<noteq> Missing"
  shows "publishedCalls (fst (execute cfg ext ctx)) =
     publishedCalls
       (concat (map (hookEffects ctx t (valueOf (invocation (call ctx))))
                  (actions (theRun ext ctx))))"
  using assms
  by (auto simp: execute_def tryBlock_def catchBlock_def theRun_def Let_def
      dest: publishedCalls_createSuccessResult_pair
      split: prod.splits sum.splits option.splits if_splits)

text \<open>
  C5, as stated, fails in its last part: \<^verbatim>\<open>execute\<close> keeps no record of having
  published the call, so an invocation layer that reports two process identities makes
  it publish the call in status \<^verbatim>\<open>executing\<close> twice.
\<close>

theorem executing_published_counterexample:
  "map status
     (publishedCalls
        (fst (execute (exConfig True 500 5)
           (exCollaborators (exRun [SetPid 4242, SetPid 4243] (Inr (exResult ''ok'')))
              (Inr ''f'') 5000)
           (exContext (exCall ''run_shell_command'' (Some 1000)) False False)))) =
   [Executing, Executing]"
  by (simp add: execute_def tryBlock_def createSuccessResult_def governOutput_def
      hookEffects_def setPidCallback_def exConfig_def exCollaborators_def exRun_def
      exResult_def exContext_def exCall_def exRequest_def Let_def)

text \<open>
  C5, amended. Every invocation of the process-identity callback hands exactly one call
  to the state-change notifier; that call has status \<^verbatim>\<open>executing\<close>, the reported
  process identity, and the request and start time of the original call. A run of
  \<^verbatim>\<open>execute\<close> publishes one such call for each process identity the invocation
  layer reports, in order, and none when the invocation is no shell invocation: the
  status \<^verbatim>\<open>executing\<close> is published at most once for a call exactly when the
  callback is invoked at most once.
\<close>

theorem executing_published_per_callback:
  "publishedCalls (setPidCallback c t i p) =
     [c\<lparr>status := Executing, tool := Defined t, invocation := Defined i, pid := Some p\<rparr>] \<and>
   (\<forall>u \<in> set (publishedCalls (setPidCallback c t i p)).
      status u = Executing \<and> startTime u = startTime c \<and> pid u = Some p \<and>
      request u = request c) \<and>
   (tool (call ctx) = Defined t \<and> invocation (call ctx) = Defined i \<longrightarrow>
      publishedCalls (fst (execute cfg ext ctx)) =
        (if isShellToolInvocation i
         then map (\<lambda>p. (call ctx)\<lparr>status := Executing, tool := Defined t,
                                   invocation := Defined i, pid := Some p\<rparr>)
                (pidsOf (actions (theRun ext ctx)))
         else [])) \<and>
   (tool (call ctx) = Defined t \<and> invocation (call ctx) = Undefined \<longrightarrow>
      publishedCalls (fst (execute cfg ext ctx)) = [])"
proof -
  have one: "publishedCalls (setPidCallback c t i p) =
     [c\<lparr>status := Executing, tool := Defined t, invocation := Defined i, pid := Some p\<rparr>]"
    by (simp add: setPidCallback_def)
  have all: "publishedCalls (fst (execute cfg ext ctx)) =
        (if isShellToolInvocation i
         then map (\<lambda>p. (call ctx)\<lparr>status := Executing, tool := Defined t,
                                   invocation := Defined i, pid := Some p\<rparr>)
                (pidsOf (actions (theRun ext ctx)))
         else [])"
    if h: "tool (call ctx) = Defined t" "invocation (call ctx) = Defined i"
  proof -
    have "invocation (call ctx) \<noteq> Missing"
      using h(2) by simp
    from publishedCalls_execute [OF h(1) this] show ?thesis
      by (simp add: publishedCalls_hookEffects h(2))
  qed
  have none: "publishedCalls (fst (execute cfg ext ctx)) = []"
    if h: "tool (call ctx) = Defined t" "invocation (call ctx) = Undefined"
  proof -
    have "invocation (call ctx) \<noteq> Missing"
      using h(2) by simp
    from publishedCalls_execute [OF h(1) this] show ?thesis
      by (simp add: publishedCalls_hookEffects h(2))
  qed
  show ?thesis
    using all none by (simp add: one)
qed

theorem executing_published_per_callback_witness:
  "map (\<lambda>u. (status u, startTime u, pid u))
     (publishedCalls
        (fst (execute (exConfig True 500 5)
           (exCollaborators (exRun [LiveOutput ''a'', SetPid 4242] (Inr (exResult ''ok'')))
              (Inr ''f'') 5000)
           (exContext (exCall ''run_shell_command'' (Some 1000)) False False)))) =
   [(Executing, Some 1000, Some 4242)]"
proof -
  let ?ext = "exCollaborators (exRun [LiveOutput ''a'', SetPid 4242] (Inr (exResult ''ok'')))
                (Inr ''f'') 5000"
  let ?ctx = "exContext (exCall ''run_shell_command'' (Some 1000)) False False"
  have pre: "tool (call ?ctx) = Defined exTool \<and>
      invocation (call ?ctx) = Defined (ShellToolInvocation ''ls -R'')"
    by (simp add: exContext_def exCall_def)
  from executing_published_per_callback
         [where ctx = ?ctx and ext = ?ext and cfg = "exConfig True 500 5" and t = exTool
            and i = "ShellToolInvocation ''ls -R''"] pre
  have "publishedCalls (fst (execute (exConfig True 500 5) ?ext ?ctx)) =
      map (\<lambda>p. (call ?ctx)\<lparr>status := Executing, tool := Defined exTool,
                  invocation := Defined (ShellToolInvocation ''ls -R''), pid := Some p\<rparr>)
        (pidsOf (actions (theRun ?ext ?ctx)))"
    by simp
  then show ?thesis
    by (simp add: theRun_def exCollaborators_def exRun_def exContext_def exCall_def)
qed

subsection \<open>The duration\<close>

lemma execute_duration:
  assumes "snd (execute cfg ext ctx) = Inr tc"
  shows "durationMs tc = duration (Date_now ext) (startTime (call ctx))"
proof (cases "tool (call ctx) = Missing \<or> valueOf (tool (call ctx)) = None \<or>
              invocation (call ctx) = Missing")
  case True
  then show ?thesis
    using assms by (simp add: execute_missing)
next
  case False
  then obtain t where ti: "tool (call ctx) = Defined t" "invocation (call ctx) \<noteq> Missing"
    by (cases "tool (call ctx)") auto
  have catch: "durationMs tc' = duration (Date_now ext) (startTime (call ctx))"
    if "snd (catchBlock ext ctx e) = Inr tc'" for e tc'
    using that
    by (auto simp: catchBlock_result [OF ti] createErrorResult_structured
        split: if_splits sum.splits)
  show ?thesis
    using assms catch
    by (auto simp: execute_result [OF ti] createCancelledResult_present ti
        createErrorResult_structured createSuccessResult_duration
        split: sum.splits option.splits if_splits)
qed

text \<open>
  C6, as stated, fails. A recorded start time of 0 is falsy, so the duration is left
  undefined although a start time was recorded; and a start time later than the clock
  reading gives a negative duration, which nothing in the three constructors excludes.
\<close>

theorem duration_counterexample:
  "startTime (exCall ''run_shell_command'' (Some 0)) = Some 0 \<and>
   map_sum id durationMs
     (snd (execute (exConfig True 500 5)
        (exCollaborators (exRun [] (Inr (exResult ''ok''))) (Inr ''f'') 5000)
        (exContext (exCall ''run_shell_command'' (Some 0)) False False))) = Inr None \<and>
   startTime (exCall ''run_shell_command'' (Some 9000)) = Some 9000 \<and>
   map_sum id durationMs
     (snd (execute (exConfig True 500 5)
        (exCollaborators (exRun [] (Inr (exResult ''ok''))) (Inr ''f'') 5000)
        (exContext (exCall ''run_shell_command'' (Some 9000)) False False))) =
     Inr (Some (- 4000))"
  by (simp add: execute_def tryBlock_def createSuccessResult_def governOutput_def
      duration_def exConfig_def exCollaborators_def exRun_def
      exResult_def exContext_def exCall_def exRequest_def Let_def)

text \<open>
  C6, amended. In every terminal call \<^verbatim>\<open>execute\<close> returns, the duration is
  undefined when no start time was recorded on the call, and is the clock reading minus
  the start time when a start time other than 0 was recorded; that difference is
  non-negative exactly when the start time is not later than the clock reading.
\<close>

theorem duration_of_terminal_call:
  assumes "snd (execute cfg ext ctx) = Inr tc"
  shows "(startTime (call ctx) = None \<longrightarrow> durationMs tc = None) \<and>
     (\<forall>st. startTime (call ctx) = Some st \<and> st \<noteq> 0 \<longrightarrow>
        durationMs tc = Some (Date_now ext - st) \<and>
        (0 \<le> Date_now ext - st \<longleftrightarrow> st \<le> Date_now ext))"
  using execute_duration [OF assms] by (auto simp: duration_def)

theorem duration_of_terminal_call_witness:
  "map_sum id durationMs
     (snd (execute (exConfig True 500 5)
        (exCollaborators (exRun [] (Inr (exResult ''ok''))) (Inr ''f'') 5000)
        (exContext (exCall ''run_shell_command'' (Some 1000)) False False))) =
     Inr (Some 4000)"
proof -
  let ?ext = "exCollaborators (exRun [] (Inr (exResult ''ok''))) (Inr ''f'') 5000"
  let ?ctx = "exContext (exCall ''run_shell_command'' (Some 1000)) False False"
  obtain tc where tc: "snd (execute (exConfig True 500 5) ?ext ?ctx) = Inr tc"
    by (simp add: execute_def tryBlock_def createSuccessResult_def governOutput_def
      exConfig_def exCollaborators_def exRun_def
      exResult_def exContext_def exCall_def exRequest_def Let_def)
  have st: "startTime (call ?ctx) = Some 1000 \<and> (1000::int) \<noteq> 0"
    by (simp add: exContext_def exCall_def)
  from duration_of_terminal_call [OF tc] st
  have "durationMs tc = Some (Date_now ?ext - 1000)"
    by blast
  then show ?thesis
    using tc by (simp add: exCollaborators_def)
qed

subsection \<open>Faults that escape, faults that are caught\<close>

text \<open>
  What leaves \<^verbatim>\<open>execute\<close> for a call with tool and invocation: only what the
  classifier throws in the \<^verbatim>\<open>catch\<close> block, for a caught value that
  \<^verbatim>\<open>String\<close> cannot convert, while the token is not aborted.
\<close>

lemma execute_throws_only_from_classifier:
  assumes "tool (call ctx) = Defined t" and "invocation (call ctx) \<noteq> Missing"
    and "snd (execute cfg ext ctx) = Inl x"
  shows "\<exists>e. faultCaught cfg ext ctx = Some e \<and> \<not> aborted_in_catch (signal ctx) \<and>
     getToolErrorMessage e = Inl x"
proof -
  have catch: "\<not> aborted_in_catch (signal ctx) \<and> getToolErrorMessage e = Inl x"
    if "snd (catchBlock ext ctx e) = Inl x" for e
    using that
    by (auto simp: catchBlock_result [OF assms(1,2)] createErrorResult_structured
        split: if_splits sum.splits)
  show ?thesis
    using assms(3) catch
    by (auto simp: execute_result [OF assms(1,2)] faultCaught_def
        createCancelledResult_present assms(1,2) createErrorResult_structured
        split: sum.splits option.splits if_splits)
qed

text \<open>
  A fault of \<^verbatim>\<open>createSuccessResult\<close> and a rejection of the invocation reach the same
  \<^verbatim>\<open>catch\<close> block, and \<^verbatim>\<open>execute\<close> returns or throws what the block does.
\<close>

lemma success_fault_reaches_catch:
  assumes "tool (call ctx) = Defined t" and "invocation (call ctx) \<noteq> Missing"
    and "settlement (theRun ext ctx) = Inr r" and "tr_error r = None"
    and "\<not> aborted_after_await (signal ctx)"
    and "snd (createSuccessResult cfg ext (call ctx) r) = Inl f"
  shows "snd (execute cfg ext ctx) = snd (catchBlock ext ctx f)"
  using assms by (simp add: execute_result)

lemma rejection_reaches_catch:
  assumes "tool (call ctx) = Defined t" and "invocation (call ctx) \<noteq> Missing"
    and "settlement (theRun ext ctx) = Inl e"
  shows "snd (execute cfg ext ctx) = snd (catchBlock ext ctx e)"
  using assms by (simp add: execute_result)

text \<open>
  C8 says that a call without a resolved tool or invocation makes \<^verbatim>\<open>execute\<close> throw
  the precondition fault, and that no other fault leaves \<^verbatim>\<open>execute\<close>. The code
  does not keep the second part. For a call with tool and invocation, the invocation
  rejects with a value \<^verbatim>\<open>String\<close> cannot convert (\<^verbatim>\<open>Object.create(null)\<close>), the
  token is not aborted: \<^verbatim>\<open>getToolErrorMessage\<close> throws a \<^verbatim>\<open>TypeError\<close> inside the
  \<^verbatim>\<open>catch\<close> block, and that fault leaves \<^verbatim>\<open>execute\<close>; no terminal call is
  returned.
\<close>

theorem unconvertible_rejection_escapes:
  "execute (exConfig True 500 5)
     (exCollaborators
        (exRun [] (Inl (StringThrows (OtherError ''Cannot convert object to primitive value''))))
        (Inr ''f'') 5000)
     (exContext (exCall ''run_shell_command'' (Some 1000)) False False) =
   ([SpanInput (exRequest ''run_shell_command''),
     SpanError (StringThrows (OtherError ''Cannot convert object to primitive value''))],
    Inl (OtherError ''Cannot convert object to primitive value''))"
  by (simp add: execute_def tryBlock_def catchBlock_def exConfig_def exCollaborators_def
      exRun_def exContext_def exCall_def Let_def)

text \<open>
  C10 says that a fault thrown while the success result is built is caught and turned
  into a call of status \<^verbatim>\<open>error\<close> or \<^verbatim>\<open>cancelled\<close>, and that nothing leaves
  \<^verbatim>\<open>execute\<close>. The fault is caught, by the handler of the invocation's faults; but
  the code does not always return. The shell output is oversized, the artifact store
  rejects with a value \<^verbatim>\<open>String\<close> cannot convert, the token is not aborted: the
  classifier throws inside the \<^verbatim>\<open>catch\<close> block and \<^verbatim>\<open>execute\<close> throws a
  \<^verbatim>\<open>TypeError\<close> instead of returning an error call.
\<close>

theorem unconvertible_store_fault_escapes:
  "snd (createSuccessResult (exConfig True 500 5)
          (exCollaborators (exRun [] (Inr (exResult (replicate 1000 CHR ''x''))))
             (Inl (StringThrows (OtherError ''Cannot convert object to primitive value'')))
             5000)
          (exCall ''run_shell_command'' (Some 1000))
          (exResult (replicate 1000 CHR ''x''))) =
     Inl (StringThrows (OtherError ''Cannot convert object to primitive value'')) \<and>
   snd (execute (exConfig True 500 5)
          (exCollaborators (exRun [] (Inr (exResult (replicate 1000 CHR ''x''))))
             (Inl (StringThrows (OtherError ''Cannot convert object to primitive value'')))
             5000)
          (exContext (exCall ''run_shell_command'' (Some 1000)) False False)) =
     Inl (OtherError ''Cannot convert object to primitive value'')"
  by (simp add: execute_def tryBlock_def catchBlock_def createSuccessResult_def
      governOutput_def exConfig_def exCollaborators_def exRun_def exResult_def
      exContext_def exCall_def exRequest_def Let_def)

end
